theory Spec2Isabelle
  imports Main "HOL-Library.Word"
begin

section \<open>JavaScript strings\<close>

text \<open>
  A JavaScript string is a sequence of UTF-16 code units; \<open>length\<close>, \<open>join\<close> and a
  regular expression without the \<open>u\<close> flag all work on code units. An ASCII literal of
  the source is written \<open>js ''...''\<close>.
\<close>

type_synonym jsstring = "16 word list"

definition js :: "string \<Rightarrow> jsstring" where
  "js s = map of_char s"

text \<open>The bullet character U+2022 of the source literal \<open>"  \<bullet>  "\<close>.\<close>

definition BULLET_CHAR :: "16 word" where
  "BULLET_CHAR = 0x2022"

text \<open>
  \<open>String.prototype.toUpperCase\<close> on the Basic Latin letters. The program applies it
  only to its own section labels, which are ASCII.
\<close>

definition toUpperCase :: "jsstring \<Rightarrow> jsstring" where
  "toUpperCase s = map (\<lambda>c. if 0x61 \<le> c \<and> c \<le> 0x7A then c - 0x20 else c) s"

text \<open>
  \<open>Array.prototype.join\<close> on an array of strings: the result starts empty, and for
  each index \<open>k\<close> the separator is appended when \<open>k > 0\<close>, then the element.
\<close>

primrec join_loop :: "jsstring \<Rightarrow> jsstring \<Rightarrow> nat \<Rightarrow> jsstring list \<Rightarrow> jsstring" where
  "join_loop sep R k [] = R"
| "join_loop sep R k (e # es) = join_loop sep ((if k > 0 then R @ sep else R) @ e) (Suc k) es"

definition join :: "jsstring list \<Rightarrow> jsstring \<Rightarrow> jsstring" where
  "join xs sep = join_loop sep [] 0 xs"

text \<open>Truthiness of an optional string: \<open>undefined\<close> and \<open>""\<close> are falsy.\<close>

definition truthy :: "jsstring option \<Rightarrow> bool" where
  "truthy v = (case v of None \<Rightarrow> False | Some s \<Rightarrow> s \<noteq> [])"

text \<open>The guard \<open>xs && xs.length > 0\<close> on an optional array.\<close>

definition nonEmpty :: "'a list option \<Rightarrow> bool" where
  "nonEmpty v = (case v of None \<Rightarrow> False | Some xs \<Rightarrow> length xs > 0)"

section \<open>The resume data (the JSON read by generate_cv.js)\<close>

text \<open>
  An optional field is \<open>None\<close> when the JSON leaves it out. Where two kinds of entry
  share a field name (\<open>location\<close>, \<open>role\<close>, \<open>dates\<close>, \<open>achievements\<close>, \<open>name\<close>,
  \<open>details\<close>), the later record prefixes it: \<open>edu_location\<close>, \<open>lead_role\<close>,
  \<open>cert_name\<close>.
\<close>

record JobEntry =
  role :: jsstring
  company :: jsstring
  location :: jsstring
  dates :: jsstring
  achievements :: "jsstring list option"

record EducationEntry =
  degree :: jsstring
  institution :: jsstring
  edu_location :: jsstring
  date :: jsstring
  details :: "jsstring option"

record CertEntry =
  cert_name :: jsstring
  cert_details :: "jsstring option"

record LeadEntry =
  lead_role :: jsstring
  organization :: jsstring
  lead_dates :: jsstring
  lead_achievements :: "jsstring list option"

record TechnicalSkills =
  technical :: "jsstring option"
  languages :: "jsstring option"

record ResumeDocument =
  name :: "jsstring option"
  professionalSummary :: "jsstring option"
  coreCompetencies :: "jsstring list option"
  professionalExperience :: "JobEntry list option"
  education :: "EducationEntry list option"
  certifications :: "CertEntry list option"
  leadership :: "LeadEntry list option"
  technicalSkills :: "TechnicalSkills option"

section \<open>The document model (the options objects handed to the docx library)\<close>

datatype PageNumber = CURRENT | TOTAL_PAGES
datatype AlignmentType = LEFT
datatype BorderStyle = SINGLE
datatype LevelFormat = BULLET
datatype TabStopType = RIGHT

text \<open>An option that the source leaves out is \<open>None\<close>, \<open>[]\<close> or \<open>False\<close>.\<close>

record TextRunOptions =
  run_text :: "jsstring option"
  run_children :: "PageNumber list"
  bold :: bool
  italics :: bool
  font :: "jsstring option"
  run_size :: "nat option"
  color :: "jsstring option"

record ImageRunOptions =
  image_type :: jsstring
  image_data :: "8 word list"
  transformation_width :: nat
  transformation_height :: nat
  altText_title :: jsstring
  altText_description :: jsstring
  altText_name :: jsstring

datatype Run = TextRun TextRunOptions | ImageRun ImageRunOptions

record Spacing =
  before :: "nat option"
  after :: "nat option"

record BorderBottom =
  border_color :: jsstring
  border_space :: nat
  border_size :: nat
  border_style :: BorderStyle

record Numbering =
  reference :: jsstring
  level :: nat

record TabStop =
  tab_type :: TabStopType
  tab_position :: nat

record Paragraph =
  alignment :: "AlignmentType option"
  spacing :: "Spacing option"
  keepNext :: bool
  keepLines :: bool
  border_bottom :: "BorderBottom option"
  numbering :: "Numbering option"
  tabStops :: "TabStop list"
  children :: "Run list"

definition run0 :: TextRunOptions where
  "run0 = \<lparr>run_text = None, run_children = [], bold = False, italics = False,
            font = None, run_size = None, color = None\<rparr>"

definition paragraph0 :: Paragraph where
  "paragraph0 = \<lparr>alignment = None, spacing = None, keepNext = False, keepLines = False,
                  border_bottom = None, numbering = None, tabStops = [], children = []\<rparr>"

section \<open>scripts/generate_cv.js\<close>

subsection \<open>Brand colours and the paragraph builders\<close>

definition noviamBlue :: jsstring where "noviamBlue = js ''004796''"
definition noviamMidBlue :: jsstring where "noviamMidBlue = js ''006BFF''"
definition noviamLightBlue :: jsstring where "noviamLightBlue = js ''00c3f5''"
definition darkGrey :: jsstring where "darkGrey = js ''626366''"
definition black :: jsstring where "black = js ''000000''"
definition white :: jsstring where "white = js ''FFFFFF''"

definition Montserrat :: jsstring where "Montserrat = js ''Montserrat''"

definition createSectionHeading :: "jsstring \<Rightarrow> Paragraph" where
  "createSectionHeading text' = paragraph0
     \<lparr>spacing := Some \<lparr>before = Some 300, after = Some 120\<rparr>,
      keepNext := True,
      keepLines := True,
      border_bottom := Some \<lparr>border_color = noviamMidBlue, border_space = 1,
                             border_size = 12, border_style = SINGLE\<rparr>,
      children := [
        TextRun (run0\<lparr>run_text := Some (toUpperCase text'), bold := True,
                       font := Some Montserrat, run_size := Some 22,
                       color := Some noviamBlue\<rparr>)]\<rparr>"

definition createJobHeader :: "jsstring \<Rightarrow> jsstring \<Rightarrow> jsstring \<Rightarrow> jsstring \<Rightarrow> Paragraph" where
  "createJobHeader role' company' location' dates' = paragraph0
     \<lparr>spacing := Some \<lparr>before = Some 200, after = Some 60\<rparr>,
      keepNext := True,
      keepLines := True,
      children := [
        TextRun (run0\<lparr>run_text := Some role', bold := True, font := Some Montserrat,
                       run_size := Some 20, color := Some noviamMidBlue\<rparr>),
        TextRun (run0\<lparr>run_text := Some (js '' | ''), font := Some Montserrat,
                       run_size := Some 20, color := Some noviamMidBlue\<rparr>),
        TextRun (run0\<lparr>run_text := Some (company' @ js '', '' @ location'),
                       font := Some Montserrat, run_size := Some 20,
                       color := Some noviamMidBlue\<rparr>),
        TextRun (run0\<lparr>run_text := Some (js '' | ''), font := Some Montserrat,
                       run_size := Some 20, color := Some noviamMidBlue\<rparr>),
        TextRun (run0\<lparr>run_text := Some dates', italics := True, font := Some Montserrat,
                       run_size := Some 20, color := Some noviamMidBlue\<rparr>)]\<rparr>"

definition createBulletPoint :: "jsstring \<Rightarrow> jsstring \<Rightarrow> bool \<Rightarrow> Paragraph" where
  "createBulletPoint text' reference' keepWithNext = paragraph0
     \<lparr>numbering := Some \<lparr>reference = reference', level = 0\<rparr>,
      spacing := Some \<lparr>before = Some 40, after = Some 40\<rparr>,
      keepNext := keepWithNext,
      keepLines := True,
      children := [
        TextRun (run0\<lparr>run_text := Some text', font := Some Montserrat,
                       run_size := Some 20, color := Some black\<rparr>)]\<rparr>"

text \<open>
  The \<open>forEach\<close> over an achievements array: the callback receives the element and its
  index, and every bullet but the one at index \<open>length - 1\<close> is kept with the next.
\<close>

definition bullets :: "jsstring \<Rightarrow> jsstring list \<Rightarrow> Paragraph list" where
  "bullets reference' as =
     map (\<lambda>(index, achievement).
            let isLastBullet = (int index = int (length as) - 1)
            in createBulletPoint achievement reference' (\<not> isLastBullet))
         (enumerate 0 as)"

subsection \<open>generateCV: the blocks pushed to \<open>children\<close>, section by section\<close>

text \<open>
  The logo file is read from a fixed path; \<open>logo\<close> is its content when
  \<open>fs.existsSync(LOGO_PATH)\<close> holds and \<open>None\<close> otherwise.
\<close>

definition logoBlocks :: "8 word list option \<Rightarrow> Paragraph list" where
  "logoBlocks logo =
     (case logo of
        None \<Rightarrow> []
      | Some logoImage \<Rightarrow> [paragraph0
          \<lparr>alignment := Some LEFT,
           spacing := Some \<lparr>before = None, after = Some 300\<rparr>,
           children := [
             ImageRun \<lparr>image_type = js ''png'', image_data = logoImage,
                       transformation_width = 180, transformation_height = 45,
                       altText_title = js ''Noviam Logo'',
                       altText_description = js ''Noviam company logo'',
                       altText_name = js ''noviam-logo''\<rparr>]\<rparr>])"

definition nameBlocks :: "ResumeDocument \<Rightarrow> Paragraph list" where
  "nameBlocks data = [paragraph0
     \<lparr>spacing := Some \<lparr>before = Some 200, after = Some 300\<rparr>,
      children := [
        TextRun (run0\<lparr>run_text := name data, bold := True, font := Some Montserrat,
                       run_size := Some 40, color := Some darkGrey\<rparr>)]\<rparr>]"

text \<open>
  The body paragraphs of Professional Summary and of Core Competencies are written out
  with the same options in the source; \<open>bodyParagraph\<close> is that paragraph.
\<close>

definition bodyParagraph :: "jsstring \<Rightarrow> Paragraph" where
  "bodyParagraph text' = paragraph0
     \<lparr>spacing := Some \<lparr>before = Some 80, after = Some 120\<rparr>,
      keepLines := True,
      children := [
        TextRun (run0\<lparr>run_text := Some text', font := Some Montserrat,
                       run_size := Some 20, color := Some black\<rparr>)]\<rparr>"

definition summaryBlocks :: "ResumeDocument \<Rightarrow> Paragraph list" where
  "summaryBlocks data =
     (if truthy (professionalSummary data)
      then [createSectionHeading (js ''Professional Summary''),
            bodyParagraph (the (professionalSummary data))]
      else [])"

definition competenciesBlocks :: "ResumeDocument \<Rightarrow> Paragraph list" where
  "competenciesBlocks data =
     (if nonEmpty (coreCompetencies data)
      then [createSectionHeading (js ''Core Competencies''),
            bodyParagraph (join (the (coreCompetencies data))
                                (js ''  '' @ [BULLET_CHAR] @ js ''  ''))]
      else [])"

definition jobBlocks :: "JobEntry \<Rightarrow> Paragraph list" where
  "jobBlocks job =
     createJobHeader (role job) (company job) (location job) (dates job)
     # (if nonEmpty (achievements job)
        then bullets (js ''experience-bullets'') (the (achievements job))
        else [])"

definition experienceBlocks :: "ResumeDocument \<Rightarrow> Paragraph list" where
  "experienceBlocks data =
     (if nonEmpty (professionalExperience data)
      then createSectionHeading (js ''Professional Experience'')
           # concat (map jobBlocks (the (professionalExperience data)))
      else [])"

definition educationEntryBlocks :: "EducationEntry \<Rightarrow> Paragraph list" where
  "educationEntryBlocks edu =
     [paragraph0
        \<lparr>spacing := Some \<lparr>before = Some 120, after = Some 40\<rparr>,
         keepNext := True,
         keepLines := True,
         children := [
           TextRun (run0\<lparr>run_text := Some (degree edu), bold := True,
                          font := Some Montserrat, run_size := Some 20,
                          color := Some noviamMidBlue\<rparr>)]\<rparr>,
      paragraph0
        \<lparr>spacing := Some \<lparr>before = Some 0, after = Some 40\<rparr>,
         keepNext := (if truthy (details edu) then True else False),
         keepLines := True,
         children := [
           TextRun (run0\<lparr>run_text := Some (institution edu @ js '', '' @ edu_location edu
                                               @ js '' | '' @ date edu),
                          font := Some Montserrat, run_size := Some 20,
                          color := Some darkGrey\<rparr>)]\<rparr>]
     @ (if truthy (details edu)
        then [paragraph0
                \<lparr>spacing := Some \<lparr>before = Some 0, after = Some 80\<rparr>,
                 keepLines := True,
                 children := [
                   TextRun (run0\<lparr>run_text := details edu, font := Some Montserrat,
                                  run_size := Some 20, color := Some black\<rparr>)]\<rparr>]
        else [])"

definition certBlock :: "CertEntry \<Rightarrow> Paragraph" where
  "certBlock cert = paragraph0
     \<lparr>spacing := Some \<lparr>before = Some 120, after = Some 80\<rparr>,
      keepLines := True,
      children :=
        TextRun (run0\<lparr>run_text := Some (cert_name cert), bold := True,
                       font := Some Montserrat, run_size := Some 20,
                       color := Some darkGrey\<rparr>)
        # (if truthy (cert_details cert)
           then [TextRun (run0\<lparr>run_text := Some (js '' | '' @ the (cert_details cert)),
                                font := Some Montserrat, run_size := Some 20,
                                color := Some darkGrey\<rparr>)]
           else [])\<rparr>"

definition educationBlocks :: "ResumeDocument \<Rightarrow> Paragraph list" where
  "educationBlocks data =
     (let hasEducation = nonEmpty (education data);
          hasCertifications = nonEmpty (certifications data)
      in if hasEducation \<or> hasCertifications
         then createSectionHeading (js ''Education & Certification'')
              # (if hasEducation
                 then concat (map educationEntryBlocks (the (education data)))
                 else [])
              @ (if hasCertifications
                 then map certBlock (the (certifications data))
                 else [])
         else [])"

definition leadBlocks :: "LeadEntry \<Rightarrow> Paragraph list" where
  "leadBlocks lead =
     paragraph0
       \<lparr>spacing := Some \<lparr>before = Some 120, after = Some 60\<rparr>,
        keepNext := True,
        keepLines := True,
        children := [
          TextRun (run0\<lparr>run_text := Some (lead_role lead), bold := True,
                         font := Some Montserrat, run_size := Some 20,
                         color := Some noviamMidBlue\<rparr>),
          TextRun (run0\<lparr>run_text := Some (js '' | '' @ organization lead @ js '' | ''
                                              @ lead_dates lead),
                         font := Some Montserrat, run_size := Some 20,
                         color := Some noviamMidBlue\<rparr>)]\<rparr>
     # (if nonEmpty (lead_achievements lead)
        then bullets (js ''leadership-bullets'') (the (lead_achievements lead))
        else [])"

definition leadershipBlocks :: "ResumeDocument \<Rightarrow> Paragraph list" where
  "leadershipBlocks data =
     (if nonEmpty (leadership data)
      then createSectionHeading (js ''Leadership'')
           # concat (map leadBlocks (the (leadership data)))
      else [])"

text \<open>
  \<open>if (data.technicalSkills)\<close> tests the object only: any object, also one with no
  field set, is truthy.
\<close>

definition skillsBlocks :: "ResumeDocument \<Rightarrow> Paragraph list" where
  "skillsBlocks data =
     (case technicalSkills data of
        None \<Rightarrow> []
      | Some skills \<Rightarrow>
          createSectionHeading (js ''Technical Skills & Languages'')
          # (if truthy (technical skills)
             then [paragraph0
                     \<lparr>spacing := Some \<lparr>before = Some 80, after = Some 40\<rparr>,
                      keepNext := (if truthy (languages skills) then True else False),
                      keepLines := True,
                      children := [
                        TextRun (run0\<lparr>run_text := Some (js ''Technical: ''), bold := True,
                                       font := Some Montserrat, run_size := Some 20,
                                       color := Some darkGrey\<rparr>),
                        TextRun (run0\<lparr>run_text := technical skills,
                                       font := Some Montserrat, run_size := Some 20,
                                       color := Some black\<rparr>)]\<rparr>]
             else [])
          @ (if truthy (languages skills)
             then [paragraph0
                     \<lparr>spacing := Some \<lparr>before = Some 40, after = Some 80\<rparr>,
                      keepLines := True,
                      children := [
                        TextRun (run0\<lparr>run_text := Some (js ''Languages: ''), bold := True,
                                       font := Some Montserrat, run_size := Some 20,
                                       color := Some darkGrey\<rparr>),
                        TextRun (run0\<lparr>run_text := languages skills,
                                       font := Some Montserrat, run_size := Some 20,
                                       color := Some black\<rparr>)]\<rparr>]
             else []))"

text \<open>The array \<open>children\<close> when the document is created: the pushes in source order.\<close>

definition generateCV_children :: "8 word list option \<Rightarrow> ResumeDocument \<Rightarrow> Paragraph list" where
  "generateCV_children logo data =
     logoBlocks logo @ nameBlocks data @ summaryBlocks data @ competenciesBlocks data
     @ experienceBlocks data @ educationBlocks data @ leadershipBlocks data
     @ skillsBlocks data"

subsection \<open>generateCV: the document\<close>

record NumberingLevel =
  lvl_level :: nat
  lvl_format :: LevelFormat
  lvl_text :: jsstring
  lvl_alignment :: AlignmentType
  indent_left :: nat
  indent_hanging :: nat

record NumberingConfig =
  cfg_reference :: jsstring
  cfg_levels :: "NumberingLevel list"

record PageProperties =
  size_width :: nat
  size_height :: nat
  margin_top :: nat
  margin_right :: nat
  margin_bottom :: nat
  margin_left :: nat
  margin_header :: nat
  margin_footer :: nat

record Section =
  titlePage :: bool
  page :: PageProperties
  headers_default :: "Paragraph list"
  headers_first :: "Paragraph list"
  footers_default :: "Paragraph list"
  footers_first :: "Paragraph list"
  section_children :: "Paragraph list"

record Document =
  styles_font :: jsstring
  styles_size :: nat
  numbering_config :: "NumberingConfig list"
  sections :: "Section list"

definition bulletLevel :: NumberingLevel where
  "bulletLevel = \<lparr>lvl_level = 0, lvl_format = BULLET, lvl_text = [BULLET_CHAR],
                   lvl_alignment = LEFT, indent_left = 720, indent_hanging = 360\<rparr>"

definition headerParagraph :: "ResumeDocument \<Rightarrow> Paragraph" where
  "headerParagraph data = paragraph0
     \<lparr>spacing := Some \<lparr>before = None, after = Some 360\<rparr>,
      tabStops := [\<lparr>tab_type = RIGHT, tab_position = 10080\<rparr>],
      children := [
        TextRun (run0\<lparr>run_text := Some (js ''Noviam Analyst: ''), bold := True,
                       font := Some Montserrat, run_size := Some 18,
                       color := Some darkGrey\<rparr>),
        TextRun (run0\<lparr>run_text := name data, bold := True, font := Some Montserrat,
                       run_size := Some 18, color := Some darkGrey\<rparr>),
        TextRun (run0\<lparr>run_text := Some [0x09]\<rparr>),
        TextRun (run0\<lparr>run_text := Some (js ''Private and Confidential''), bold := True,
                       font := Some Montserrat, run_size := Some 18,
                       color := Some darkGrey\<rparr>)]\<rparr>"

text \<open>The copyright sign U+00A9 opens the footer line.\<close>

definition copyrightLine :: jsstring where
  "copyrightLine = [0xA9] @ js '' 2026, Noviam Inc. All Rights Reserved.''"

text \<open>
  The source writes this paragraph out twice, for \<open>footers.default\<close> and for
  \<open>footers.first\<close>, with the same options.
\<close>

definition footerParagraph :: Paragraph where
  "footerParagraph = paragraph0
     \<lparr>tabStops := [\<lparr>tab_type = RIGHT, tab_position = 10080\<rparr>],
      children := [
        TextRun (run0\<lparr>run_text := Some copyrightLine, font := Some Montserrat,
                       run_size := Some 18, color := Some darkGrey\<rparr>),
        TextRun (run0\<lparr>run_text := Some [0x09]\<rparr>),
        TextRun (run0\<lparr>run_text := Some (js ''Page ''), font := Some Montserrat,
                       run_size := Some 18, color := Some darkGrey\<rparr>),
        TextRun (run0\<lparr>run_children := [CURRENT], font := Some Montserrat,
                       run_size := Some 18, color := Some darkGrey\<rparr>),
        TextRun (run0\<lparr>run_text := Some (js '' of ''), font := Some Montserrat,
                       run_size := Some 18, color := Some darkGrey\<rparr>),
        TextRun (run0\<lparr>run_children := [TOTAL_PAGES], font := Some Montserrat,
                       run_size := Some 18, color := Some darkGrey\<rparr>)]\<rparr>"

text \<open>
  The document handed to \<open>Packer.toBuffer\<close>. Serialising it and writing the file are
  the library's and the file system's work and are not modelled.
\<close>

definition generateCV :: "8 word list option \<Rightarrow> ResumeDocument \<Rightarrow> Document" where
  "generateCV logo data =
     \<lparr>styles_font = Montserrat,
      styles_size = 20,
      numbering_config = [
        \<lparr>cfg_reference = js ''experience-bullets'', cfg_levels = [bulletLevel]\<rparr>,
        \<lparr>cfg_reference = js ''leadership-bullets'', cfg_levels = [bulletLevel]\<rparr>],
      sections = [
        \<lparr>titlePage = True,
         page = \<lparr>size_width = 12240, size_height = 15840,
                 margin_top = 1080, margin_right = 1080, margin_bottom = 1080,
                 margin_left = 1080, margin_header = 720, margin_footer = 720\<rparr>,
         headers_default = [headerParagraph data],
         headers_first = [],
         footers_default = [footerParagraph],
         footers_first = [footerParagraph],
         section_children = generateCV_children logo data\<rparr>]\<rparr>"

text \<open>
  Which header and footer a page of a section shows, in the word-processing format:
  with \<open>titlePage\<close> set the first page takes the \<open>first\<close> header and footer, and
  every other page the \<open>default\<close> ones. Pages are numbered from 1.
\<close>

definition headerOnPage :: "Section \<Rightarrow> nat \<Rightarrow> Paragraph list" where
  "headerOnPage s n = (if titlePage s \<and> n = 1 then headers_first s else headers_default s)"

definition footerOnPage :: "Section \<Rightarrow> nat \<Rightarrow> Paragraph list" where
  "footerOnPage s n = (if titlePage s \<and> n = 1 then footers_first s else footers_default s)"

section \<open>lib/aligner.js and server.js: validation before generation\<close>

datatype error = Error jsstring

text \<open>
  The end of \<open>alignCV\<close>, after \<open>JSON.parse\<close> has returned \<open>cvData\<close>: the check of the
  two required fields throws inside the \<open>try\<close> block, and the \<open>catch\<close> rethrows with a
  prefixed message.
\<close>

definition basicValidation :: "ResumeDocument \<Rightarrow> error + ResumeDocument" where
  "basicValidation cvData =
     (if \<not> truthy (name cvData) \<or> \<not> truthy (professionalSummary cvData)
      then Inl (Error (js ''Missing required fields: name or professionalSummary''))
      else Inr cvData)"

definition alignCV_result :: "ResumeDocument \<Rightarrow> error + ResumeDocument" where
  "alignCV_result cvData =
     (case basicValidation cvData of
        Inl (Error message) \<Rightarrow>
          Inl (Error (js ''Failed to parse Claude response as JSON: '' @ message))
      | Inr v \<Rightarrow> Inr v)"

text \<open>
  The \<open>/api/align\<close> handler of server.js: the aligned data goes to the generator only
  when \<open>alignCV\<close> has returned; an error thrown there skips the generation.
\<close>

definition alignThenGenerate :: "8 word list option \<Rightarrow> ResumeDocument \<Rightarrow> error + Document" where
  "alignThenGenerate logo cvData =
     (case alignCV_result cvData of
        Inl e \<Rightarrow> Inl e
      | Inr alignedData \<Rightarrow> Inr (generateCV logo alignedData))"

section \<open>lib/generator.js: the output file name\<close>

text \<open>The character class \<open>[a-zA-Z0-9]\<close>, on code units.\<close>

definition isAlnum :: "16 word \<Rightarrow> bool" where
  "isAlnum c = ((0x61 \<le> c \<and> c \<le> 0x7A) \<or> (0x41 \<le> c \<and> c \<le> 0x5A) \<or> (0x30 \<le> c \<and> c \<le> 0x39))"

text \<open>
  \<open>replace(/[^a-zA-Z0-9]/g, '_')\<close>: from left to right, every code unit outside the
  class is a match and gives way to the replacement string.
\<close>

primrec replaceNonAlnum :: "jsstring \<Rightarrow> jsstring" where
  "replaceNonAlnum [] = []"
| "replaceNonAlnum (c # cs) = (if isAlnum c then [c] else js ''_'') @ replaceNonAlnum cs"

text \<open>
  A non-negative integer in a template literal: its decimal digits. \<open>Date.now()\<close> is
  the number of milliseconds since the epoch.
\<close>

fun numberToString :: "nat \<Rightarrow> jsstring" where
  "numberToString n =
     (if n < 10 then [0x30 + of_nat n]
      else numberToString (n div 10) @ [0x30 + of_nat (n mod 10)])"

declare numberToString.simps [simp del]

text \<open>
  The wrapper \<open>generateCV(cvData, candidateName = 'Candidate')\<close> up to the two paths:
  \<open>timestamp\<close> is \<open>Date.now()\<close>, \<open>hash\<close> the eight hex digits of
  \<open>crypto.randomBytes(4)\<close>, and \<open>path.join\<close> puts one separator between the
  directory and a file name that holds none.
\<close>

definition safeName :: "jsstring option \<Rightarrow> jsstring" where
  "safeName candidateName =
     replaceNonAlnum (case candidateName of None \<Rightarrow> js ''Candidate'' | Some n \<Rightarrow> n)"

definition jsonPath :: "jsstring \<Rightarrow> jsstring \<Rightarrow> jsstring" where
  "jsonPath OUTPUT_DIR hash = OUTPUT_DIR @ js ''/'' @ js ''cv_data_'' @ hash @ js ''.json''"

definition outputPath :: "jsstring \<Rightarrow> jsstring option \<Rightarrow> nat \<Rightarrow> jsstring" where
  "outputPath OUTPUT_DIR candidateName timestamp =
     OUTPUT_DIR @ js ''/'' @ safeName candidateName @ js ''_CV_Aligned_''
     @ numberToString timestamp @ js ''.docx''"

section \<open>Reading the emitted blocks\<close>

text \<open>
  A section heading is the one kind of paragraph with a bottom border rule; its label is
  the text of its single run.
\<close>

definition headingLabel :: "Paragraph \<Rightarrow> jsstring option" where
  "headingLabel p =
     (case (border_bottom p, children p) of
        (Some b, [TextRun r]) \<Rightarrow> run_text r
      | _ \<Rightarrow> None)"

text \<open>The labels of the section headings of a block list, in order.\<close>

definition headingLabels :: "Paragraph list \<Rightarrow> jsstring list" where
  "headingLabels ps = List.map_filter headingLabel ps"

definition isHeading :: "Paragraph \<Rightarrow> bool" where
  "isHeading p = (border_bottom p \<noteq> None)"

text \<open>
  Every heading of a block list is followed by a block that is not a heading: no
  heading stands last, and none is directly followed by another heading.
\<close>

fun headingsHaveBody :: "Paragraph list \<Rightarrow> bool" where
  "headingsHaveBody [] = True"
| "headingsHaveBody [p] = (\<not> isHeading p)"
| "headingsHaveBody (p # q # ps) =
     ((if isHeading p then \<not> isHeading q else True) \<and> headingsHaveBody (q # ps))"


text \<open>
  The number that a string of decimal digits denotes, most significant digit first.
\<close>

definition decimalValue :: "jsstring \<Rightarrow> nat" where
  "decimalValue s = foldl (\<lambda>v c. 10 * v + (unat c - 48)) 0 s"

text \<open>The sixty-two characters of \<open>[A-Za-z0-9]\<close>, one by one.\<close>

definition alnumChars :: "16 word set" where
  "alnumChars = set (js ''ABCDEFGHIJKLMNOPQRSTUVWXYZabcdefghijklmnopqrstuvwxyz0123456789'')"

text \<open>
  The visible text of a run and of a paragraph (a run with no text, a field or an image,
  shows none), and the live page fields of a run.
\<close>

definition runText :: "Run \<Rightarrow> jsstring" where
  "runText r =
     (case r of
        TextRun t \<Rightarrow> (case run_text t of None \<Rightarrow> [] | Some s \<Rightarrow> s)
      | ImageRun i \<Rightarrow> [])"

definition paragraphText :: "Paragraph \<Rightarrow> jsstring" where
  "paragraphText p = concat (map runText (children p))"

definition runFields :: "Run \<Rightarrow> PageNumber list" where
  "runFields r = (case r of TextRun t \<Rightarrow> run_children t | ImageRun i \<Rightarrow> [])"

text \<open>
  The technical-skills object, when present, has a field that is set: the condition
  under which the section has a paragraph under its heading.
\<close>

definition skillsHaveBody :: "ResumeDocument \<Rightarrow> bool" where
  "skillsHaveBody data =
     (case technicalSkills data of
        None \<Rightarrow> True
      | Some skills \<Rightarrow> truthy (technical skills) \<or> truthy (languages skills))"

section \<open>Example inputs\<close>

definition janeName :: jsstring where
  "janeName = js ''Jane O'Brien-Smith''"

definition minimalDoc :: ResumeDocument where
  "minimalDoc = \<lparr>name = Some janeName,
                   professionalSummary = Some (js ''Analyst with ten years in credit.''),
                   coreCompetencies = None, professionalExperience = None,
                   education = None, certifications = None, leadership = None,
                   technicalSkills = None\<rparr>"


definition threeBulletJob :: JobEntry where
  "threeBulletJob = \<lparr>role = js ''Analyst'', company = js ''Acme'', location = js ''Leeds'',
     dates = js ''2019 - 2023'', achievements = Some [js ''a'', js ''b'', js ''c'']\<rparr>"

definition bareJob :: JobEntry where
  "bareJob = \<lparr>role = js ''Intern'', company = js ''Acme'', location = js ''Leeds'',
     dates = js ''2018'', achievements = None\<rparr>"

definition experienceDoc :: ResumeDocument where
  "experienceDoc = minimalDoc\<lparr>professionalExperience :=
     Some [threeBulletJob, bareJob, threeBulletJob]\<rparr>"

definition eduEntry :: EducationEntry where
  "eduEntry = \<lparr>degree = js ''BSc Mathematics'', institution = js ''Leeds'', edu_location = js ''UK'',
     date = js ''2017'', details = Some (js ''First class'')\<rparr>"


definition cfaCert :: CertEntry where
  "cfaCert = \<lparr>cert_name = js ''CFA Level I'', cert_details = Some (js ''2020'')\<rparr>"

definition frmCert :: CertEntry where
  "frmCert = \<lparr>cert_name = js ''FRM'', cert_details = None\<rparr>"


definition certOnlyDoc :: ResumeDocument where
  "certOnlyDoc = minimalDoc\<lparr>certifications := Some [frmCert]\<rparr>"

definition noSummaryDoc :: ResumeDocument where
  "noSummaryDoc = minimalDoc\<lparr>professionalSummary := None\<rparr>"

definition emptyNameDoc :: ResumeDocument where
  "emptyNameDoc = minimalDoc\<lparr>name := Some []\<rparr>"

definition emptySkillsDoc :: ResumeDocument where
  "emptySkillsDoc = minimalDoc\<lparr>technicalSkills :=
     Some \<lparr>technical = None, languages = None\<rparr>\<rparr>"

definition skillsDoc :: ResumeDocument where
  "skillsDoc = minimalDoc\<lparr>technicalSkills :=
     Some \<lparr>technical = Some (js ''Excel''), languages = None\<rparr>\<rparr>"

definition leadEntry :: LeadEntry where
  "leadEntry = \<lparr>lead_role = js ''Treasurer'', organization = js ''Chess Club'',
     lead_dates = js ''2016'', lead_achievements = Some [js ''Balanced the books'']\<rparr>"

definition fullDoc :: ResumeDocument where
  "fullDoc = \<lparr>name = Some janeName,
                professionalSummary = Some (js ''Analyst with ten years in credit.''),
                coreCompetencies = Some [js ''B'', js ''A'', js ''C''],
                professionalExperience = Some [threeBulletJob, bareJob],
                education = Some [eduEntry], certifications = Some [cfaCert],
                leadership = Some [leadEntry],
                technicalSkills = Some \<lparr>technical = Some (js ''Excel''),
                                        languages = Some (js ''English'')\<rparr>\<rparr>"

section \<open>What the builders produce\<close>

lemma paragraphText_createSectionHeading:
  "paragraphText (createSectionHeading t) = toUpperCase t"
  by (simp add: createSectionHeading_def paragraphText_def runText_def paragraph0_def run0_def)

lemma paragraphText_bodyParagraph: "paragraphText (bodyParagraph t) = t"
  by (simp add: bodyParagraph_def paragraphText_def runText_def paragraph0_def run0_def)

lemma paragraphText_nameBlocks:
  "map paragraphText (nameBlocks data) = [case name data of None \<Rightarrow> [] | Some n \<Rightarrow> n]"
  by (simp add: nameBlocks_def paragraphText_def runText_def paragraph0_def run0_def)






section \<open>The section headings of the emitted blocks\<close>

lemma headingLabels_append: "headingLabels (xs @ ys) = headingLabels xs @ headingLabels ys"
  by (simp add: headingLabels_def List.map_filter_def)

lemma headingLabels_Cons:
  "headingLabels (p # ps) = (case headingLabel p of None \<Rightarrow> [] | Some l \<Rightarrow> [l]) @ headingLabels ps"
  by (simp add: headingLabels_def List.map_filter_def split: option.splits)

lemma headingLabels_Nil: "headingLabels [] = []"
  by (simp add: headingLabels_def List.map_filter_def)

lemma headingLabels_plain:
  "(\<And>p. p \<in> set ps \<Longrightarrow> border_bottom p = None) \<Longrightarrow> headingLabels ps = []"
  by (induction ps) (simp_all add: headingLabels_Nil headingLabels_Cons headingLabel_def)

lemma headingLabel_createSectionHeading:
  "headingLabel (createSectionHeading t) = Some (toUpperCase t)"
  by (simp add: headingLabel_def createSectionHeading_def paragraph0_def run0_def)

lemma border_createBulletPoint: "border_bottom (createBulletPoint t r k) = None"
  by (simp add: createBulletPoint_def paragraph0_def)

lemma border_bullets: "p \<in> set (bullets r as) \<Longrightarrow> border_bottom p = None"
  by (auto simp add: bullets_def Let_def border_createBulletPoint)

lemma border_jobBlocks: "p \<in> set (jobBlocks j) \<Longrightarrow> border_bottom p = None"
  by (auto simp add: jobBlocks_def createJobHeader_def paragraph0_def border_bullets
           split: if_splits)

lemma border_leadBlocks: "p \<in> set (leadBlocks l) \<Longrightarrow> border_bottom p = None"
  by (auto simp add: leadBlocks_def paragraph0_def border_bullets split: if_splits)

lemma border_educationEntryBlocks:
  "p \<in> set (educationEntryBlocks e) \<Longrightarrow> border_bottom p = None"
  by (auto simp add: educationEntryBlocks_def paragraph0_def split: if_splits)

lemma border_certBlock: "border_bottom (certBlock c) = None"
  by (simp add: certBlock_def paragraph0_def)

lemma labels_logoBlocks: "headingLabels (logoBlocks logo) = []"
  by (simp add: logoBlocks_def headingLabels_Nil headingLabels_Cons headingLabel_def
                paragraph0_def split: option.splits)

lemma labels_nameBlocks: "headingLabels (nameBlocks data) = []"
  by (simp add: nameBlocks_def headingLabels_Nil headingLabels_Cons headingLabel_def
                paragraph0_def)

lemma headingLabel_bodyParagraph: "headingLabel (bodyParagraph t) = None"
  by (simp add: bodyParagraph_def headingLabel_def paragraph0_def)

lemma labels_summaryBlocks:
  "headingLabels (summaryBlocks data) =
     (if truthy (professionalSummary data) then [toUpperCase (js ''Professional Summary'')] else [])"
  by (simp add: summaryBlocks_def headingLabels_Nil headingLabels_Cons
                headingLabel_createSectionHeading headingLabel_bodyParagraph)

lemma labels_competenciesBlocks:
  "headingLabels (competenciesBlocks data) =
     (if nonEmpty (coreCompetencies data) then [toUpperCase (js ''Core Competencies'')] else [])"
  by (simp add: competenciesBlocks_def headingLabels_Nil headingLabels_Cons
                headingLabel_createSectionHeading headingLabel_bodyParagraph)

lemma labels_experienceBlocks:
  "headingLabels (experienceBlocks data) =
     (if nonEmpty (professionalExperience data)
      then [toUpperCase (js ''Professional Experience'')] else [])"
proof -
  have "headingLabels (concat (map jobBlocks js)) = []" for js
    by (rule headingLabels_plain) (auto dest: border_jobBlocks)
  then show ?thesis
    by (simp add: experienceBlocks_def headingLabels_Nil headingLabels_Cons
                  headingLabel_createSectionHeading)
qed

lemma labels_educationBlocks:
  "headingLabels (educationBlocks data) =
     (if nonEmpty (education data) \<or> nonEmpty (certifications data)
      then [toUpperCase (js ''Education & Certification'')] else [])"
proof -
  have edu: "headingLabels (concat (map educationEntryBlocks es)) = []" for es
    by (rule headingLabels_plain) (auto dest: border_educationEntryBlocks)
  have cert: "headingLabels (map certBlock cs) = []" for cs
    by (rule headingLabels_plain) (auto simp add: border_certBlock)
  show ?thesis
    by (simp add: educationBlocks_def Let_def headingLabels_Nil headingLabels_Cons
                  headingLabels_append headingLabel_createSectionHeading edu cert)
qed

lemma labels_leadershipBlocks:
  "headingLabels (leadershipBlocks data) =
     (if nonEmpty (leadership data) then [toUpperCase (js ''Leadership'')] else [])"
proof -
  have "headingLabels (concat (map leadBlocks ls)) = []" for ls
    by (rule headingLabels_plain) (auto dest: border_leadBlocks)
  then show ?thesis
    by (simp add: leadershipBlocks_def headingLabels_Nil headingLabels_Cons
                  headingLabel_createSectionHeading)
qed

lemma labels_skillsBlocks:
  "headingLabels (skillsBlocks data) =
     (case technicalSkills data of
        None \<Rightarrow> []
      | Some skills \<Rightarrow> [toUpperCase (js ''Technical Skills & Languages'')])"
proof (cases "technicalSkills data")
  case None
  then show ?thesis
    by (simp add: skillsBlocks_def headingLabels_Nil)
next
  case (Some skills)
  have plain: "headingLabels (tl (skillsBlocks data)) = []"
    by (rule headingLabels_plain)
       (auto simp add: skillsBlocks_def Some paragraph0_def split: if_splits)
  have "skillsBlocks data =
          createSectionHeading (js ''Technical Skills & Languages'') # tl (skillsBlocks data)"
    by (simp add: skillsBlocks_def Some)
  then have "headingLabels (skillsBlocks data) =
          [toUpperCase (js ''Technical Skills & Languages'')] @ headingLabels (tl (skillsBlocks data))"
    by (metis headingLabels_Cons headingLabel_createSectionHeading option.simps(5))
  with plain Some show ?thesis
    by simp
qed

text \<open>
  The labels of the section headings of a generated document, in order: one for each
  section whose guard holds.
\<close>

lemma labels_generateCV_children:
  "headingLabels (generateCV_children logo data) =
     (if truthy (professionalSummary data) then [js ''PROFESSIONAL SUMMARY''] else [])
     @ (if nonEmpty (coreCompetencies data) then [js ''CORE COMPETENCIES''] else [])
     @ (if nonEmpty (professionalExperience data) then [js ''PROFESSIONAL EXPERIENCE''] else [])
     @ (if nonEmpty (education data) \<or> nonEmpty (certifications data)
        then [js ''EDUCATION & CERTIFICATION''] else [])
     @ (if nonEmpty (leadership data) then [js ''LEADERSHIP''] else [])
     @ (case technicalSkills data of
          None \<Rightarrow> []
        | Some skills \<Rightarrow> [js ''TECHNICAL SKILLS & LANGUAGES''])"
proof -
  have up: "toUpperCase (js ''Professional Summary'') = js ''PROFESSIONAL SUMMARY''"
    "toUpperCase (js ''Core Competencies'') = js ''CORE COMPETENCIES''"
    "toUpperCase (js ''Professional Experience'') = js ''PROFESSIONAL EXPERIENCE''"
    "toUpperCase (js ''Education & Certification'') = js ''EDUCATION & CERTIFICATION''"
    "toUpperCase (js ''Leadership'') = js ''LEADERSHIP''"
    "toUpperCase (js ''Technical Skills & Languages'') = js ''TECHNICAL SKILLS & LANGUAGES''"
    by (simp_all add: toUpperCase_def js_def)
  show ?thesis
    unfolding generateCV_children_def headingLabels_append labels_logoBlocks labels_nameBlocks
      labels_summaryBlocks labels_competenciesBlocks labels_experienceBlocks
      labels_educationBlocks labels_leadershipBlocks labels_skillsBlocks up
    by simp
qed

text \<open>
  The section headings come in one fixed order: Professional Summary, Core Competencies,
  Professional Experience, Education & Certification, Leadership, Technical Skills &
  Languages, each present exactly when its guard holds.
\<close>

theorem section_heading_order:
  "headingLabels (generateCV_children logo data) =
     (if truthy (professionalSummary data) then [js ''PROFESSIONAL SUMMARY''] else [])
     @ (if nonEmpty (coreCompetencies data) then [js ''CORE COMPETENCIES''] else [])
     @ (if nonEmpty (professionalExperience data) then [js ''PROFESSIONAL EXPERIENCE''] else [])
     @ (if nonEmpty (education data) \<or> nonEmpty (certifications data)
        then [js ''EDUCATION & CERTIFICATION''] else [])
     @ (if nonEmpty (leadership data) then [js ''LEADERSHIP''] else [])
     @ (case technicalSkills data of
          None \<Rightarrow> []
        | Some skills \<Rightarrow> [js ''TECHNICAL SKILLS & LANGUAGES''])"
  by (rule labels_generateCV_children)

theorem section_heading_order_witness:
  "headingLabels (generateCV_children None fullDoc) =
     [js ''PROFESSIONAL SUMMARY'', js ''CORE COMPETENCIES'', js ''PROFESSIONAL EXPERIENCE'',
      js ''EDUCATION & CERTIFICATION'', js ''LEADERSHIP'', js ''TECHNICAL SKILLS & LANGUAGES'']"
  using section_heading_order [of None fullDoc]
  by (simp add: fullDoc_def truthy_def nonEmpty_def js_def)

section \<open>Required fields\<close>

text \<open>
  Claim C1 as stated fails for the composer: \<open>generateCV\<close> checks nothing. Given a
  document with a name and no \<open>professionalSummary\<close> it returns a document, whose only
  block is the name paragraph.
\<close>

theorem composer_without_summary_counterexample:
  "professionalSummary noSummaryDoc = None
   \<and> map (map paragraphText \<circ> section_children) (sections (generateCV None noSummaryDoc))
       = [[janeName]]"
  by (simp add: generateCV_def generateCV_children_def noSummaryDoc_def minimalDoc_def
        logoBlocks_def paragraphText_nameBlocks summaryBlocks_def competenciesBlocks_def
        experienceBlocks_def educationBlocks_def leadershipBlocks_def skillsBlocks_def
        truthy_def nonEmpty_def)

text \<open>
  Claim C1, amended. The two required fields are checked by \<open>alignCV\<close>, before the
  composer runs: when \<open>name\<close> or \<open>professionalSummary\<close> is missing or empty the
  request fails with the error of \<open>alignCV\<close> and no document is generated; when both
  are present the document is generated, whatever else is absent. The composer itself
  leaves the Professional Summary section out when the summary is missing or empty.
\<close>

theorem validation_precedes_generation:
  "(\<not> truthy (name d) \<or> \<not> truthy (professionalSummary d) \<longrightarrow>
      alignThenGenerate logo d =
        Inl (Error (js ''Failed to parse Claude response as JSON: Missing required fields: name or professionalSummary'')))
   \<and> (truthy (name d) \<and> truthy (professionalSummary d) \<longrightarrow>
      alignThenGenerate logo d = Inr (generateCV logo d))
   \<and> (\<not> truthy (professionalSummary d) \<longrightarrow>
      generateCV_children logo d =
        logoBlocks logo @ nameBlocks d @ competenciesBlocks d @ experienceBlocks d
        @ educationBlocks d @ leadershipBlocks d @ skillsBlocks d)"
proof -
  have msg: "js ''Failed to parse Claude response as JSON: '' @ js ''Missing required fields: name or professionalSummary''
     = js ''Failed to parse Claude response as JSON: Missing required fields: name or professionalSummary''"
    by (simp add: js_def)
  have rejected: "\<not> truthy (name d) \<or> \<not> truthy (professionalSummary d) \<longrightarrow>
      alignThenGenerate logo d =
        Inl (Error (js ''Failed to parse Claude response as JSON: Missing required fields: name or professionalSummary''))"
    by (auto simp add: alignThenGenerate_def alignCV_result_def basicValidation_def msg)
  have accepted: "truthy (name d) \<and> truthy (professionalSummary d) \<longrightarrow>
      alignThenGenerate logo d = Inr (generateCV logo d)"
    by (simp add: alignThenGenerate_def alignCV_result_def basicValidation_def)
  have omitted: "\<not> truthy (professionalSummary d) \<longrightarrow>
      generateCV_children logo d =
        logoBlocks logo @ nameBlocks d @ competenciesBlocks d @ experienceBlocks d
        @ educationBlocks d @ leadershipBlocks d @ skillsBlocks d"
    by (simp add: generateCV_children_def summaryBlocks_def)
  from rejected accepted omitted show ?thesis by blast
qed

theorem validation_precedes_generation_witness:
  "alignThenGenerate None noSummaryDoc =
     Inl (Error (js ''Failed to parse Claude response as JSON: Missing required fields: name or professionalSummary''))
   \<and> alignThenGenerate None emptyNameDoc =
     Inl (Error (js ''Failed to parse Claude response as JSON: Missing required fields: name or professionalSummary''))
   \<and> alignThenGenerate None experienceDoc = Inr (generateCV None experienceDoc)
   \<and> generateCV_children None noSummaryDoc = nameBlocks noSummaryDoc"
proof -
  have a: "\<not> truthy (professionalSummary noSummaryDoc)"
    by (simp add: noSummaryDoc_def truthy_def)
  have b: "\<not> truthy (name emptyNameDoc)"
    by (simp add: emptyNameDoc_def truthy_def)
  have c: "truthy (name experienceDoc) \<and> truthy (professionalSummary experienceDoc)"
    by (simp add: experienceDoc_def minimalDoc_def janeName_def truthy_def js_def)
  have rest: "logoBlocks None @ nameBlocks noSummaryDoc @ competenciesBlocks noSummaryDoc
      @ experienceBlocks noSummaryDoc @ educationBlocks noSummaryDoc
      @ leadershipBlocks noSummaryDoc @ skillsBlocks noSummaryDoc = nameBlocks noSummaryDoc"
    by (simp add: noSummaryDoc_def minimalDoc_def logoBlocks_def competenciesBlocks_def
          experienceBlocks_def educationBlocks_def leadershipBlocks_def skillsBlocks_def
          nonEmpty_def)
  from validation_precedes_generation [of noSummaryDoc None] a
  have w1: "alignThenGenerate None noSummaryDoc =
     Inl (Error (js ''Failed to parse Claude response as JSON: Missing required fields: name or professionalSummary''))"
    and w4: "generateCV_children None noSummaryDoc = nameBlocks noSummaryDoc"
    unfolding rest by blast+
  from validation_precedes_generation [of emptyNameDoc None] b
  have w2: "alignThenGenerate None emptyNameDoc =
     Inl (Error (js ''Failed to parse Claude response as JSON: Missing required fields: name or professionalSummary''))"
    by blast
  from validation_precedes_generation [of experienceDoc None] c
  have w3: "alignThenGenerate None experienceDoc = Inr (generateCV None experienceDoc)"
    by blast
  from w1 w2 w3 w4 show ?thesis by blast
qed

section \<open>A heading without a body\<close>

lemma hb_Cons_plain: "\<not> isHeading p \<Longrightarrow> headingsHaveBody ps \<Longrightarrow> headingsHaveBody (p # ps)"
  by (cases ps) simp_all

lemma hb_append:
  "headingsHaveBody xs \<Longrightarrow> headingsHaveBody ys \<Longrightarrow> headingsHaveBody (xs @ ys)"
proof (induction xs rule: headingsHaveBody.induct)
  case 1
  then show ?case by simp
next
  case (2 p)
  then show ?case by (simp add: hb_Cons_plain)
next
  case (3 p q ps)
  then show ?case by simp
qed

lemma hb_plain: "(\<And>p. p \<in> set ps \<Longrightarrow> \<not> isHeading p) \<Longrightarrow> headingsHaveBody ps"
  by (induction ps rule: headingsHaveBody.induct) simp_all

lemma hb_heading_plain:
  "ps \<noteq> [] \<Longrightarrow> (\<And>p. p \<in> set ps \<Longrightarrow> \<not> isHeading p) \<Longrightarrow> headingsHaveBody (h # ps)"
proof (cases ps)
  case Nil
  assume "ps \<noteq> []"
  with Nil show ?thesis by simp
next
  case (Cons q qs)
  assume plain: "\<And>p. p \<in> set ps \<Longrightarrow> \<not> isHeading p"
  then have "headingsHaveBody ps" by (rule hb_plain)
  with Cons plain show ?thesis by simp
qed

lemma hb_heading_last: "isHeading h \<Longrightarrow> \<not> headingsHaveBody (xs @ [h])"
  by (induction xs rule: headingsHaveBody.induct) simp_all

lemma plain_jobBlocks: "p \<in> set (jobBlocks j) \<Longrightarrow> \<not> isHeading p"
  by (simp add: isHeading_def border_jobBlocks)

lemma plain_leadBlocks: "p \<in> set (leadBlocks j) \<Longrightarrow> \<not> isHeading p"
  by (simp add: isHeading_def border_leadBlocks)

lemma plain_educationEntryBlocks: "p \<in> set (educationEntryBlocks j) \<Longrightarrow> \<not> isHeading p"
  by (simp add: isHeading_def border_educationEntryBlocks)

lemma plain_certBlock: "\<not> isHeading (certBlock c)"
  by (simp add: isHeading_def border_certBlock)

lemma plain_bodyParagraph: "\<not> isHeading (bodyParagraph t)"
  by (simp add: isHeading_def bodyParagraph_def paragraph0_def)

lemma isHeading_createSectionHeading: "isHeading (createSectionHeading t)"
  by (simp add: isHeading_def createSectionHeading_def paragraph0_def)

lemma jobBlocks_nonempty: "jobBlocks j \<noteq> []"
  by (simp add: jobBlocks_def)

lemma leadBlocks_nonempty: "leadBlocks j \<noteq> []"
  by (simp add: leadBlocks_def)

lemma educationEntryBlocks_nonempty: "educationEntryBlocks j \<noteq> []"
  by (simp add: educationEntryBlocks_def)

lemma hb_logoBlocks: "headingsHaveBody (logoBlocks logo)"
  by (simp add: logoBlocks_def isHeading_def paragraph0_def split: option.splits)

lemma hb_nameBlocks: "headingsHaveBody (nameBlocks data)"
  by (simp add: nameBlocks_def isHeading_def paragraph0_def)

lemma hb_summaryBlocks: "headingsHaveBody (summaryBlocks data)"
  by (simp add: summaryBlocks_def plain_bodyParagraph)

lemma hb_competenciesBlocks: "headingsHaveBody (competenciesBlocks data)"
  by (simp add: competenciesBlocks_def plain_bodyParagraph)

lemma nonEmpty_Cons: "nonEmpty v \<longleftrightarrow> (\<exists>x xs. v = Some (x # xs))"
  by (auto simp add: nonEmpty_def neq_Nil_conv split: option.splits)

lemma hb_experienceBlocks: "headingsHaveBody (experienceBlocks data)"
proof (cases "nonEmpty (professionalExperience data)")
  case False
  then show ?thesis by (simp add: experienceBlocks_def)
next
  case True
  then have "\<exists>j js. professionalExperience data = Some (j # js)"
    by (simp only: nonEmpty_Cons)
  then obtain j js where js: "professionalExperience data = Some (j # js)"
    by blast
  have ne: "concat (map jobBlocks (j # js)) \<noteq> []"
    by (simp add: jobBlocks_nonempty)
  have plain: "\<And>p. p \<in> set (concat (map jobBlocks (j # js))) \<Longrightarrow> \<not> isHeading p"
    by (auto dest: plain_jobBlocks)
  from hb_heading_plain [OF ne plain]
  show ?thesis using True js by (simp add: experienceBlocks_def)
qed

lemma hb_leadershipBlocks: "headingsHaveBody (leadershipBlocks data)"
proof (cases "nonEmpty (leadership data)")
  case False
  then show ?thesis by (simp add: leadershipBlocks_def)
next
  case True
  then have "\<exists>j js. leadership data = Some (j # js)"
    by (simp only: nonEmpty_Cons)
  then obtain j js where js: "leadership data = Some (j # js)"
    by blast
  have ne: "concat (map leadBlocks (j # js)) \<noteq> []"
    by (simp add: leadBlocks_nonempty)
  have plain: "\<And>p. p \<in> set (concat (map leadBlocks (j # js))) \<Longrightarrow> \<not> isHeading p"
    by (auto dest: plain_leadBlocks)
  from hb_heading_plain [OF ne plain]
  show ?thesis using True js by (simp add: leadershipBlocks_def)
qed

lemma hb_educationBlocks: "headingsHaveBody (educationBlocks data)"
proof (cases "nonEmpty (education data) \<or> nonEmpty (certifications data)")
  case False
  then show ?thesis by (simp add: educationBlocks_def)
next
  case True
  define body where "body =
     (if nonEmpty (education data)
      then concat (map educationEntryBlocks (the (education data))) else [])
     @ (if nonEmpty (certifications data)
        then map certBlock (the (certifications data)) else [])"
  have ne: "body \<noteq> []"
    using True
    by (auto simp add: body_def nonEmpty_def educationEntryBlocks_nonempty
             split: option.splits list.splits)
  have plain: "\<And>p. p \<in> set body \<Longrightarrow> \<not> isHeading p"
    by (auto simp add: body_def plain_certBlock dest: plain_educationEntryBlocks split: if_splits)
  from hb_heading_plain [OF ne plain]
  show ?thesis using True by (simp add: educationBlocks_def body_def)
qed

lemma skillsBlocks_cases:
  "skillsBlocks data =
     (case technicalSkills data of
        None \<Rightarrow> []
      | Some skills \<Rightarrow>
          createSectionHeading (js ''Technical Skills & Languages'') # tl (skillsBlocks data))"
  by (simp add: skillsBlocks_def split: option.splits)

lemma tl_skillsBlocks_plain: "p \<in> set (tl (skillsBlocks data)) \<Longrightarrow> \<not> isHeading p"
  by (auto simp add: skillsBlocks_def isHeading_def paragraph0_def
           split: option.splits if_splits)

lemma tl_skillsBlocks_empty:
  "technicalSkills data = Some skills \<Longrightarrow>
   tl (skillsBlocks data) = [] \<longleftrightarrow> \<not> truthy (technical skills) \<and> \<not> truthy (languages skills)"
  by (simp add: skillsBlocks_def)

text \<open>
  Claim C2 at the input whose \<open>technicalSkills\<close> object has neither field: the
  heading TECHNICAL SKILLS & LANGUAGES is emitted and is the last block, with no body
  under it.
\<close>

theorem empty_skills_heading_without_body:
  "map paragraphText (generateCV_children None emptySkillsDoc) =
     [janeName, js ''PROFESSIONAL SUMMARY'', js ''Analyst with ten years in credit.'',
      js ''TECHNICAL SKILLS & LANGUAGES'']
   \<and> last (generateCV_children None emptySkillsDoc)
       = createSectionHeading (js ''Technical Skills & Languages'')
   \<and> \<not> headingsHaveBody (generateCV_children None emptySkillsDoc)"
proof -
  have blocks: "generateCV_children None emptySkillsDoc =
     nameBlocks emptySkillsDoc
     @ [createSectionHeading (js ''Professional Summary''),
        bodyParagraph (js ''Analyst with ten years in credit.''),
        createSectionHeading (js ''Technical Skills & Languages'')]"
    by (simp add: generateCV_children_def emptySkillsDoc_def minimalDoc_def logoBlocks_def
          summaryBlocks_def competenciesBlocks_def experienceBlocks_def educationBlocks_def
          leadershipBlocks_def skillsBlocks_def truthy_def nonEmpty_def js_def)
  have nm: "map paragraphText (nameBlocks emptySkillsDoc) = [janeName]"
    by (simp add: paragraphText_nameBlocks emptySkillsDoc_def minimalDoc_def)
  have name_plain: "nameBlocks emptySkillsDoc = [hd (nameBlocks emptySkillsDoc)]"
    "\<not> isHeading (hd (nameBlocks emptySkillsDoc))"
    by (simp_all add: nameBlocks_def isHeading_def paragraph0_def)
  have heading: "isHeading (createSectionHeading t)" for t
    by (simp add: isHeading_def createSectionHeading_def paragraph0_def)
  have body: "\<not> isHeading (bodyParagraph t)" for t
    by (simp add: isHeading_def bodyParagraph_def paragraph0_def)
  have texts: "map paragraphText (generateCV_children None emptySkillsDoc) =
     [janeName, js ''PROFESSIONAL SUMMARY'', js ''Analyst with ten years in credit.'',
      js ''TECHNICAL SKILLS & LANGUAGES'']"
    unfolding blocks
    by (simp add: nm paragraphText_createSectionHeading paragraphText_bodyParagraph
          toUpperCase_def js_def)
  have lst: "last (generateCV_children None emptySkillsDoc)
       = createSectionHeading (js ''Technical Skills & Languages'')"
    unfolding blocks by simp
  have bad: "\<not> headingsHaveBody (generateCV_children None emptySkillsDoc)"
    unfolding blocks
    by (subst name_plain(1)) (simp add: heading body name_plain(2))
  from texts lst bad show ?thesis by blast
qed

text \<open>
  Every section heading of a generated document has a body block under it exactly when
  the technical-skills object is absent or has a field that is set: the other sections
  never emit a bare heading.
\<close>

theorem headings_have_body_iff:
  "headingsHaveBody (generateCV_children logo data) \<longleftrightarrow> skillsHaveBody data"
proof (cases "technicalSkills data")
  case None
  then have "skillsBlocks data = []"
    by (simp add: skillsBlocks_def)
  then have "headingsHaveBody (generateCV_children logo data)"
    by (simp add: generateCV_children_def hb_append hb_logoBlocks hb_nameBlocks
          hb_summaryBlocks hb_competenciesBlocks hb_experienceBlocks hb_educationBlocks
          hb_leadershipBlocks)
  with None show ?thesis by (simp add: skillsHaveBody_def)
next
  case (Some skills)
  have shape: "skillsBlocks data =
      createSectionHeading (js ''Technical Skills & Languages'') # tl (skillsBlocks data)"
    using skillsBlocks_cases [of data] Some by simp
  show ?thesis
  proof (cases "truthy (technical skills) \<or> truthy (languages skills)")
    case True
    then have ne: "tl (skillsBlocks data) \<noteq> []"
      using tl_skillsBlocks_empty [OF Some] by blast
    have "headingsHaveBody (createSectionHeading (js ''Technical Skills & Languages'') # tl (skillsBlocks data))"
      by (rule hb_heading_plain [OF ne]) (rule tl_skillsBlocks_plain)
    then have "headingsHaveBody (skillsBlocks data)"
      using shape by simp
    then have "headingsHaveBody (generateCV_children logo data)"
      by (simp add: generateCV_children_def hb_append hb_logoBlocks hb_nameBlocks
            hb_summaryBlocks hb_competenciesBlocks hb_experienceBlocks hb_educationBlocks
            hb_leadershipBlocks)
    with True Some show ?thesis by (simp add: skillsHaveBody_def)
  next
    case False
    then have "tl (skillsBlocks data) = []"
      using tl_skillsBlocks_empty [OF Some] by blast
    with shape have last: "skillsBlocks data = [createSectionHeading (js ''Technical Skills & Languages'')]"
      by simp
    have "generateCV_children logo data =
        (logoBlocks logo @ nameBlocks data @ summaryBlocks data @ competenciesBlocks data
         @ experienceBlocks data @ educationBlocks data @ leadershipBlocks data)
        @ [createSectionHeading (js ''Technical Skills & Languages'')]"
      by (simp add: generateCV_children_def last)
    then have "\<not> headingsHaveBody (generateCV_children logo data)"
      by (simp only: hb_heading_last [OF isHeading_createSectionHeading] not_False_eq_True)
    with False Some show ?thesis by (simp add: skillsHaveBody_def)
  qed
qed

theorem headings_have_body_iff_witness:
  "headingsHaveBody (generateCV_children None skillsDoc)
   \<and> \<not> headingsHaveBody (generateCV_children None emptySkillsDoc)"
  using headings_have_body_iff [of None skillsDoc] headings_have_body_iff [of None emptySkillsDoc]
  by (simp add: skillsHaveBody_def skillsDoc_def emptySkillsDoc_def truthy_def js_def)

section \<open>The minimal document\<close>

text \<open>
  Claim C3. For a document with \<open>name\<close> and \<open>professionalSummary\<close> set and every
  other field omitted, the generation succeeds and the blocks are the name paragraph, the
  Professional Summary heading and the summary paragraph, after the logo paragraph when
  the logo file exists; PROFESSIONAL SUMMARY is the only section heading.
\<close>

theorem minimal_document_blocks:
  assumes "name data = Some n" and "n \<noteq> []"
      and "professionalSummary data = Some s" and "s \<noteq> []"
      and "coreCompetencies data = None" and "professionalExperience data = None"
      and "education data = None" and "certifications data = None"
      and "leadership data = None" and "technicalSkills data = None"
  shows "alignThenGenerate logo data = Inr (generateCV logo data)
       \<and> map section_children (sections (generateCV logo data)) = [generateCV_children logo data]
       \<and> generateCV_children logo data =
           logoBlocks logo @ nameBlocks data
           @ [createSectionHeading (js ''Professional Summary''), bodyParagraph s]
       \<and> map paragraphText (nameBlocks data) = [n]
       \<and> headingLabels (generateCV_children logo data) = [js ''PROFESSIONAL SUMMARY'']"
proof -
  have ok: "alignThenGenerate logo data = Inr (generateCV logo data)"
    using assms(1-4) by (simp add: alignThenGenerate_def alignCV_result_def basicValidation_def truthy_def)
  have sec: "map section_children (sections (generateCV logo data)) = [generateCV_children logo data]"
    by (simp add: generateCV_def)
  have blocks: "generateCV_children logo data =
           logoBlocks logo @ nameBlocks data
           @ [createSectionHeading (js ''Professional Summary''), bodyParagraph s]"
    using assms
    by (simp add: generateCV_children_def summaryBlocks_def competenciesBlocks_def
          experienceBlocks_def educationBlocks_def leadershipBlocks_def skillsBlocks_def
          truthy_def nonEmpty_def)
  have nm: "map paragraphText (nameBlocks data) = [n]"
    using assms(1) by (simp add: paragraphText_nameBlocks)
  have labels: "headingLabels (generateCV_children logo data) = [js ''PROFESSIONAL SUMMARY'']"
    using assms by (simp add: labels_generateCV_children truthy_def nonEmpty_def)
  from ok sec blocks nm labels show ?thesis by simp
qed

theorem minimal_document_blocks_witness:
  "alignThenGenerate None minimalDoc = Inr (generateCV None minimalDoc)
   \<and> map paragraphText (generateCV_children None minimalDoc) =
       [janeName, js ''PROFESSIONAL SUMMARY'', js ''Analyst with ten years in credit.'']
   \<and> headingLabels (generateCV_children None minimalDoc) = [js ''PROFESSIONAL SUMMARY'']"
proof -
  have n: "name minimalDoc = Some janeName" "janeName \<noteq> []"
    and s: "professionalSummary minimalDoc = Some (js ''Analyst with ten years in credit.'')"
           "js ''Analyst with ten years in credit.'' \<noteq> []"
    and rest: "coreCompetencies minimalDoc = None" "professionalExperience minimalDoc = None"
           "education minimalDoc = None" "certifications minimalDoc = None"
           "leadership minimalDoc = None" "technicalSkills minimalDoc = None"
    by (simp_all add: minimalDoc_def janeName_def js_def)
  note inst = minimal_document_blocks [OF n s rest, of None]
  from inst have blocks: "generateCV_children None minimalDoc =
      logoBlocks None @ nameBlocks minimalDoc
      @ [createSectionHeading (js ''Professional Summary''),
         bodyParagraph (js ''Analyst with ten years in credit.'')]"
    by blast
  from inst have nm: "map paragraphText (nameBlocks minimalDoc) = [janeName]"
    by blast
  have texts: "map paragraphText (generateCV_children None minimalDoc) =
       [janeName, js ''PROFESSIONAL SUMMARY'', js ''Analyst with ten years in credit.'']"
    unfolding blocks
    by (simp add: nm logoBlocks_def paragraphText_createSectionHeading
                  paragraphText_bodyParagraph toUpperCase_def js_def)
  from inst texts show ?thesis by blast
qed

section \<open>The merged Education and Certification heading\<close>

text \<open>
  Claim C4. The section heading EDUCATION & CERTIFICATION is among the headings of the
  generated document if and only if \<open>education\<close> or \<open>certifications\<close> is a
  non-empty sequence.
\<close>

theorem education_heading_iff:
  "js ''EDUCATION & CERTIFICATION'' \<in> set (headingLabels (generateCV_children logo data))
   \<longleftrightarrow> nonEmpty (education data) \<or> nonEmpty (certifications data)"
proof -
  have ne: "js ''EDUCATION & CERTIFICATION'' \<noteq> js ''PROFESSIONAL SUMMARY''"
    "js ''EDUCATION & CERTIFICATION'' \<noteq> js ''CORE COMPETENCIES''"
    "js ''EDUCATION & CERTIFICATION'' \<noteq> js ''PROFESSIONAL EXPERIENCE''"
    "js ''EDUCATION & CERTIFICATION'' \<noteq> js ''LEADERSHIP''"
    "js ''EDUCATION & CERTIFICATION'' \<noteq> js ''TECHNICAL SKILLS & LANGUAGES''"
    by (simp_all add: js_def)
  show ?thesis
    unfolding labels_generateCV_children
    by (simp add: ne split: option.splits)
qed

theorem education_heading_iff_witness:
  "js ''EDUCATION & CERTIFICATION'' \<in> set (headingLabels (generateCV_children None certOnlyDoc))
   \<and> js ''EDUCATION & CERTIFICATION'' \<notin> set (headingLabels (generateCV_children None minimalDoc))"
  using education_heading_iff [of None certOnlyDoc] education_heading_iff [of None minimalDoc]
  by (simp add: certOnlyDoc_def minimalDoc_def nonEmpty_def)

section \<open>Core competencies: one joined line, in input order\<close>






section \<open>The output file name\<close>

lemma replaceNonAlnum_length: "length (replaceNonAlnum s) = length s"
  by (induction s) (simp_all add: js_def)

lemma replaceNonAlnum_nth:
  "i < length s \<Longrightarrow> replaceNonAlnum s ! i = (if isAlnum (s ! i) then s ! i else 0x5F)"
proof (induction s arbitrary: i)
  case Nil
  then show ?case by simp
next
  case (Cons c cs)
  then show ?case by (cases i) (simp_all add: js_def)
qed

lemma unat_alnumChars:
  "n \<in> unat ` alnumChars \<longleftrightarrow>
     (97 \<le> n \<and> n \<le> 122) \<or> (65 \<le> n \<and> n \<le> 90) \<or> (48 \<le> n \<and> n \<le> 57)"
  unfolding alnumChars_def js_def
  by (simp only: list.map list.set image_insert image_empty insert_iff empty_iff
        of_char_eq_iff) (simp, presburger)

lemma isAlnum_alnumChars: "isAlnum c \<longleftrightarrow> c \<in> alnumChars"
proof -
  have ranges: "isAlnum c \<longleftrightarrow>
     (97 \<le> unat c \<and> unat c \<le> 122) \<or> (65 \<le> unat c \<and> unat c \<le> 90)
     \<or> (48 \<le> unat c \<and> unat c \<le> 57)"
    by (simp add: isAlnum_def word_le_nat_alt)
  have member: "c \<in> alnumChars \<longleftrightarrow> unat c \<in> unat ` alnumChars"
    by (auto simp add: image_iff dest: word_unat_eq_iff [THEN iffD2])
  show ?thesis
    unfolding ranges member unat_alnumChars ..
qed

lemma decimalValue_snoc: "decimalValue (s @ [c]) = 10 * decimalValue s + (unat c - 48)"
  by (simp add: decimalValue_def)

lemma unat_digit: "d < 10 \<Longrightarrow> unat (0x30 + of_nat d :: 16 word) = 48 + d"
proof -
  assume d: "d < 10"
  have sum: "word_of_nat (48 + d) = (0x30 + of_nat d :: 16 word)"
    by simp
  from d have small: "48 + d < 2 ^ LENGTH(16)"
    by simp
  from sum small show ?thesis
    by (rule of_nat_inverse)
qed

lemma decimalValue_numberToString: "decimalValue (numberToString n) = n"
proof (induction n rule: numberToString.induct)
  case (1 n)
  show ?case
  proof (cases "n < 10")
    case True
    then show ?thesis
      by (subst numberToString.simps) (simp add: decimalValue_def unat_digit)
  next
    case False
    have "n mod 10 < 10" by simp
    then have digit: "unat (0x30 + of_nat (n mod 10) :: 16 word) - 48 = n mod 10"
      by (simp add: unat_digit)
    from False "1.IH" have "decimalValue (numberToString (n div 10)) = n div 10"
      by simp
    with False digit show ?thesis
      by (subst numberToString.simps) (simp add: decimalValue_snoc)
  qed
qed

lemma numberToString_inj: "numberToString a = numberToString b \<longleftrightarrow> a = b"
  by (metis decimalValue_numberToString)

lemma digit_in_range: "d < 10 \<Longrightarrow> (0x30 + of_nat d :: 16 word) \<in> set (js ''0123456789'')"
proof -
  assume "d < 10"
  then have "d = 0 \<or> d = 1 \<or> d = 2 \<or> d = 3 \<or> d = 4 \<or> d = 5 \<or> d = 6 \<or> d = 7 \<or> d = 8 \<or> d = 9"
    by arith
  then show ?thesis
    by (auto simp add: js_def)
qed

lemma numberToString_digits: "set (numberToString n) \<subseteq> set (js ''0123456789'')"
proof (induction n rule: numberToString.induct)
  case (1 n)
  show ?case
  proof (cases "n < 10")
    case True
    then show ?thesis
      by (subst numberToString.simps) (simp add: digit_in_range)
  next
    case False
    have "n mod 10 < 10" by simp
    then have "(0x30 + of_nat (n mod 10) :: 16 word) \<in> set (js ''0123456789'')"
      by (rule digit_in_range)
    with False "1.IH" show ?thesis
      by (subst numberToString.simps) simp
  qed
qed

lemma numberToString_nonempty: "numberToString n \<noteq> []"
  by (subst numberToString.simps) simp

text \<open>
  Claim C7. For every candidate name the output file name is the sanitized name, then
  the fixed marker \<open>_CV_Aligned_\<close>, then the generation time in decimal, then
  \<open>.docx\<close>; the sanitized name has the length of the name and, at every position, the
  name's code unit when it is one of the characters of \<open>[A-Za-z0-9]\<close> and \<open>_\<close>
  (0x5F) otherwise. The token is never empty, consists of decimal digits and denotes the
  generation time, so that two generations of the same name get the same file name only
  at the same time.
\<close>

theorem output_file_name_sanitized:
  "outputPath dir (Some n) timestamp =
     dir @ js ''/'' @ safeName (Some n) @ js ''_CV_Aligned_'' @ numberToString timestamp
     @ js ''.docx''
   \<and> length (safeName (Some n)) = length n
   \<and> (\<forall>i < length n.
         safeName (Some n) ! i = (if n ! i \<in> alnumChars then n ! i else 0x5F))
   \<and> numberToString timestamp \<noteq> []
   \<and> set (numberToString timestamp) \<subseteq> set (js ''0123456789'')
   \<and> decimalValue (numberToString timestamp) = timestamp
   \<and> (outputPath dir (Some n) timestamp = outputPath dir (Some n) timestamp'
        \<longleftrightarrow> timestamp = timestamp')"
proof -
  have path: "outputPath dir (Some n) timestamp =
     dir @ js ''/'' @ safeName (Some n) @ js ''_CV_Aligned_'' @ numberToString timestamp
     @ js ''.docx''"
    by (simp add: outputPath_def)
  have len: "length (safeName (Some n)) = length n"
    by (simp add: safeName_def replaceNonAlnum_length)
  have units: "\<forall>i < length n.
         safeName (Some n) ! i = (if n ! i \<in> alnumChars then n ! i else 0x5F)"
    by (simp add: safeName_def replaceNonAlnum_nth isAlnum_alnumChars)
  have token: "numberToString timestamp \<noteq> []"
    "set (numberToString timestamp) \<subseteq> set (js ''0123456789'')"
    "decimalValue (numberToString timestamp) = timestamp"
    by (rule numberToString_nonempty, rule numberToString_digits,
        rule decimalValue_numberToString)
  have unique: "outputPath dir (Some n) timestamp = outputPath dir (Some n) timestamp'
        \<longleftrightarrow> timestamp = timestamp'"
    by (simp add: outputPath_def numberToString_inj)
  from path len units token unique show ?thesis by blast
qed

text \<open>
  The name \<open>Jane O'Brien-Smith\<close> gives the base \<open>Jane_O_Brien_Smith\<close>, and two
  generation times one millisecond apart give two file names.
\<close>

theorem output_file_name_sanitized_witness:
  "safeName (Some janeName) =
     [0x4A, 0x61, 0x6E, 0x65, 0x5F, 0x4F, 0x5F, 0x42, 0x72, 0x69, 0x65, 0x6E, 0x5F,
      0x53, 0x6D, 0x69, 0x74, 0x68]
   \<and> safeName (Some janeName) = js ''Jane_O_Brien_Smith''
   \<and> numberToString 1700000000123 =
       [0x31, 0x37, 0x30, 0x30, 0x30, 0x30, 0x30, 0x30, 0x30, 0x30, 0x31, 0x32, 0x33]
   \<and> outputPath (js ''/srv/output'') (Some janeName) 1700000000123 =
       js ''/srv/output/Jane_O_Brien_Smith_CV_Aligned_1700000000123.docx''
   \<and> outputPath (js ''/srv/output'') (Some janeName) 1700000000123 =
       [0x2F, 0x73, 0x72, 0x76, 0x2F, 0x6F, 0x75, 0x74, 0x70, 0x75, 0x74, 0x2F, 0x4A,
        0x61, 0x6E, 0x65, 0x5F, 0x4F, 0x5F, 0x42, 0x72, 0x69, 0x65, 0x6E, 0x5F, 0x53,
        0x6D, 0x69, 0x74, 0x68, 0x5F, 0x43, 0x56, 0x5F, 0x41, 0x6C, 0x69, 0x67, 0x6E,
        0x65, 0x64, 0x5F, 0x31, 0x37, 0x30, 0x30, 0x30, 0x30, 0x30, 0x30, 0x30, 0x30,
        0x31, 0x32, 0x33, 0x2E, 0x64, 0x6F, 0x63, 0x78]
   \<and> outputPath (js ''/srv/output'') (Some janeName) 1700000000123 \<noteq>
       outputPath (js ''/srv/output'') (Some janeName) 1700000000124"
proof -
  have base: "safeName (Some janeName) =
     [0x4A, 0x61, 0x6E, 0x65, 0x5F, 0x4F, 0x5F, 0x42, 0x72, 0x69, 0x65, 0x6E, 0x5F,
      0x53, 0x6D, 0x69, 0x74, 0x68]"
    by (simp add: safeName_def janeName_def js_def isAlnum_def)
  have base': "safeName (Some janeName) = js ''Jane_O_Brien_Smith''"
    by (simp add: base js_def)
  have token: "numberToString 1700000000123 =
       [0x31, 0x37, 0x30, 0x30, 0x30, 0x30, 0x30, 0x30, 0x30, 0x30, 0x31, 0x32, 0x33]"
    by (simp add: numberToString.simps)
  note inst = output_file_name_sanitized
                [of "js ''/srv/output''" janeName 1700000000123 1700000000124]
  from inst
  have "outputPath (js ''/srv/output'') (Some janeName) 1700000000123 =
          js ''/srv/output'' @ js ''/'' @ safeName (Some janeName) @ js ''_CV_Aligned_''
          @ numberToString 1700000000123 @ js ''.docx''"
    by blast
  then have path: "outputPath (js ''/srv/output'') (Some janeName) 1700000000123 =
       js ''/srv/output/Jane_O_Brien_Smith_CV_Aligned_1700000000123.docx''"
    by (simp add: base token js_def)
  from inst
  have "(outputPath (js ''/srv/output'') (Some janeName) 1700000000123 =
         outputPath (js ''/srv/output'') (Some janeName) 1700000000124)
        \<longleftrightarrow> (1700000000123::nat) = 1700000000124"
    by blast
  then have differ: "outputPath (js ''/srv/output'') (Some janeName) 1700000000123 \<noteq>
       outputPath (js ''/srv/output'') (Some janeName) 1700000000124"
    by simp
  from path have units: "outputPath (js ''/srv/output'') (Some janeName) 1700000000123 =
       [0x2F, 0x73, 0x72, 0x76, 0x2F, 0x6F, 0x75, 0x74, 0x70, 0x75, 0x74, 0x2F, 0x4A,
        0x61, 0x6E, 0x65, 0x5F, 0x4F, 0x5F, 0x42, 0x72, 0x69, 0x65, 0x6E, 0x5F, 0x53,
        0x6D, 0x69, 0x74, 0x68, 0x5F, 0x43, 0x56, 0x5F, 0x41, 0x6C, 0x69, 0x67, 0x6E,
        0x65, 0x64, 0x5F, 0x31, 0x37, 0x30, 0x30, 0x30, 0x30, 0x30, 0x30, 0x30, 0x30,
        0x31, 0x32, 0x33, 0x2E, 0x64, 0x6F, 0x63, 0x78]"
    by (simp add: js_def)
  from base base' token path units differ show ?thesis by blast
qed

section \<open>Professional experience: headers and bullets\<close>






section \<open>Education before certifications\<close>



section \<open>Page header and footer\<close>

text \<open>
  Claim C9. The section of the generated document has a title page. The first page has
  an empty header; every later page has the header paragraph with the analyst label, the
  candidate's name and the text \<open>Private and Confidential\<close>. Every page, the first
  included, has the footer paragraph: the copyright line (the sign 0xA9 and
  \<open>2026, Noviam Inc. All Rights Reserved.\<close>), then \<open>Page\<close>, the live current-page
  field, \<open>of\<close> and the live total-pages field; the two fields are runs with no text
  of their own.
\<close>

theorem header_and_footer_on_pages:
  "map titlePage (sections (generateCV logo data)) = [True]
   \<and> map (\<lambda>s. headerOnPage s 1) (sections (generateCV logo data)) = [[]]
   \<and> map (\<lambda>s. headerOnPage s (Suc (Suc k))) (sections (generateCV logo data))
       = [[headerParagraph data]]
   \<and> map runText (children (headerParagraph data))
       = [js ''Noviam Analyst: '', (case name data of None \<Rightarrow> [] | Some n \<Rightarrow> n), [0x09],
          js ''Private and Confidential'']
   \<and> map (\<lambda>s. footerOnPage s 1) (sections (generateCV logo data)) = [[footerParagraph]]
   \<and> map (\<lambda>s. footerOnPage s (Suc (Suc k))) (sections (generateCV logo data))
       = [[footerParagraph]]
   \<and> map (\<lambda>r. (runText r, runFields r)) (children footerParagraph)
       = [([0xA9] @ js '' 2026, Noviam Inc. All Rights Reserved.'', []), ([0x09], []),
          (js ''Page '', []), ([], [CURRENT]), (js '' of '', []), ([], [TOTAL_PAGES])]"
proof -
  have secs: "map titlePage (sections (generateCV logo data)) = [True]"
    by (simp add: generateCV_def)
  have h1: "map (\<lambda>s. headerOnPage s 1) (sections (generateCV logo data)) = [[]]"
    by (simp add: generateCV_def headerOnPage_def)
  have hk: "map (\<lambda>s. headerOnPage s (Suc (Suc k))) (sections (generateCV logo data))
       = [[headerParagraph data]]"
    by (simp add: generateCV_def headerOnPage_def)
  have ht: "map runText (children (headerParagraph data))
       = [js ''Noviam Analyst: '', (case name data of None \<Rightarrow> [] | Some n \<Rightarrow> n), [0x09],
          js ''Private and Confidential'']"
    by (simp add: headerParagraph_def runText_def paragraph0_def run0_def)
  have f1: "map (\<lambda>s. footerOnPage s 1) (sections (generateCV logo data)) = [[footerParagraph]]"
    by (simp add: generateCV_def footerOnPage_def)
  have fk: "map (\<lambda>s. footerOnPage s (Suc (Suc k))) (sections (generateCV logo data))
       = [[footerParagraph]]"
    by (simp add: generateCV_def footerOnPage_def)
  have ft: "map (\<lambda>r. (runText r, runFields r)) (children footerParagraph)
       = [([0xA9] @ js '' 2026, Noviam Inc. All Rights Reserved.'', []), ([0x09], []),
          (js ''Page '', []), ([], [CURRENT]), (js '' of '', []), ([], [TOTAL_PAGES])]"
    by (simp add: footerParagraph_def copyrightLine_def runText_def runFields_def
                  paragraph0_def run0_def)
  from secs h1 hk ht f1 fk ft show ?thesis by simp
qed

theorem header_and_footer_on_pages_witness:
  "map (\<lambda>s. headerOnPage s 1) (sections (generateCV None minimalDoc)) = [[]]
   \<and> map (\<lambda>s. map (map runText \<circ> children) (headerOnPage s 2))
         (sections (generateCV None minimalDoc))
       = [[[js ''Noviam Analyst: '', janeName, [0x09], js ''Private and Confidential'']]]
   \<and> map (\<lambda>s. map paragraphText (headerOnPage s 2)) (sections (generateCV None minimalDoc))
       = [[[0x4E, 0x6F, 0x76, 0x69, 0x61, 0x6D, 0x20, 0x41, 0x6E, 0x61, 0x6C, 0x79, 0x73,
        0x74, 0x3A, 0x20, 0x4A, 0x61, 0x6E, 0x65, 0x20, 0x4F, 0x27, 0x42, 0x72, 0x69,
        0x65, 0x6E, 0x2D, 0x53, 0x6D, 0x69, 0x74, 0x68, 0x09, 0x50, 0x72, 0x69, 0x76,
        0x61, 0x74, 0x65, 0x20, 0x61, 0x6E, 0x64, 0x20, 0x43, 0x6F, 0x6E, 0x66, 0x69,
        0x64, 0x65, 0x6E, 0x74, 0x69, 0x61, 0x6C]]]
   \<and> map (\<lambda>s. map paragraphText (footerOnPage s 1)) (sections (generateCV None minimalDoc))
       = [[[0xA9, 0x20, 0x32, 0x30, 0x32, 0x36, 0x2C, 0x20, 0x4E, 0x6F, 0x76, 0x69, 0x61,
        0x6D, 0x20, 0x49, 0x6E, 0x63, 0x2E, 0x20, 0x41, 0x6C, 0x6C, 0x20, 0x52, 0x69,
        0x67, 0x68, 0x74, 0x73, 0x20, 0x52, 0x65, 0x73, 0x65, 0x72, 0x76, 0x65, 0x64,
        0x2E, 0x09, 0x50, 0x61, 0x67, 0x65, 0x20, 0x20, 0x6F, 0x66, 0x20]]]
   \<and> map (\<lambda>s. map paragraphText (footerOnPage s 2)) (sections (generateCV None minimalDoc))
       = [[[0xA9, 0x20, 0x32, 0x30, 0x32, 0x36, 0x2C, 0x20, 0x4E, 0x6F, 0x76, 0x69, 0x61,
        0x6D, 0x20, 0x49, 0x6E, 0x63, 0x2E, 0x20, 0x41, 0x6C, 0x6C, 0x20, 0x52, 0x69,
        0x67, 0x68, 0x74, 0x73, 0x20, 0x52, 0x65, 0x73, 0x65, 0x72, 0x76, 0x65, 0x64,
        0x2E, 0x09, 0x50, 0x61, 0x67, 0x65, 0x20, 0x20, 0x6F, 0x66, 0x20]]]
   \<and> map (\<lambda>s. map (map runFields \<circ> children) (footerOnPage s 1))
         (sections (generateCV None minimalDoc))
       = [[[[], [], [], [CURRENT], [], [TOTAL_PAGES]]]]
   \<and> map (\<lambda>s. map (map runFields \<circ> children) (footerOnPage s 2))
         (sections (generateCV None minimalDoc))
       = [[[[], [], [], [CURRENT], [], [TOTAL_PAGES]]]]"
proof -
  note inst = header_and_footer_on_pages [of None minimalDoc 0]
  from inst have h1: "map (\<lambda>s. headerOnPage s 1) (sections (generateCV None minimalDoc)) = [[]]"
    by blast
  from inst have h2: "map (\<lambda>s. headerOnPage s (Suc (Suc 0))) (sections (generateCV None minimalDoc))
       = [[headerParagraph minimalDoc]]"
    by blast
  from inst have ht: "map runText (children (headerParagraph minimalDoc))
       = [js ''Noviam Analyst: '', (case name minimalDoc of None \<Rightarrow> [] | Some n \<Rightarrow> n), [0x09],
          js ''Private and Confidential'']"
    by blast
  from inst have f1: "map (\<lambda>s. footerOnPage s 1) (sections (generateCV None minimalDoc))
       = [[footerParagraph]]"
    by blast
  from inst have f2: "map (\<lambda>s. footerOnPage s (Suc (Suc 0))) (sections (generateCV None minimalDoc))
       = [[footerParagraph]]"
    by blast
  from inst have runs: "map (\<lambda>r. (runText r, runFields r)) (children footerParagraph)
       = [([0xA9] @ js '' 2026, Noviam Inc. All Rights Reserved.'', []), ([0x09], []),
          (js ''Page '', []), ([], [CURRENT]), (js '' of '', []), ([], [TOTAL_PAGES])]"
    by blast
  have "map runText (children footerParagraph)
          = map fst (map (\<lambda>r. (runText r, runFields r)) (children footerParagraph))"
    by (simp add: comp_def)
  then have texts: "map runText (children footerParagraph)
       = [[0xA9] @ js '' 2026, Noviam Inc. All Rights Reserved.'', [0x09], js ''Page '', [],
          js '' of '', []]"
    by (simp only: runs list.map fst_conv)
  have "map runFields (children footerParagraph)
          = map snd (map (\<lambda>r. (runText r, runFields r)) (children footerParagraph))"
    by (simp add: comp_def)
  then have fields: "map runFields (children footerParagraph)
       = [[], [], [], [CURRENT], [], [TOTAL_PAGES]]"
    by (simp only: runs list.map snd_conv)
  have ftext: "paragraphText footerParagraph =
      [0xA9, 0x20, 0x32, 0x30, 0x32, 0x36, 0x2C, 0x20, 0x4E, 0x6F, 0x76, 0x69, 0x61,
        0x6D, 0x20, 0x49, 0x6E, 0x63, 0x2E, 0x20, 0x41, 0x6C, 0x6C, 0x20, 0x52, 0x69,
        0x67, 0x68, 0x74, 0x73, 0x20, 0x52, 0x65, 0x73, 0x65, 0x72, 0x76, 0x65, 0x64,
        0x2E, 0x09, 0x50, 0x61, 0x67, 0x65, 0x20, 0x20, 0x6F, 0x66, 0x20]"
    unfolding paragraphText_def texts by (simp add: js_def)
  have two: "(2::nat) = Suc (Suc 0)" by simp
  have sec: "\<exists>s. sections (generateCV None minimalDoc) = [s]"
    by (simp add: generateCV_def)
  then obtain s where s: "sections (generateCV None minimalDoc) = [s]" by blast
  have nm: "name minimalDoc = Some janeName" by (simp add: minimalDoc_def)
  have htext: "paragraphText (headerParagraph minimalDoc) =
      [0x4E, 0x6F, 0x76, 0x69, 0x61, 0x6D, 0x20, 0x41, 0x6E, 0x61, 0x6C, 0x79, 0x73,
        0x74, 0x3A, 0x20, 0x4A, 0x61, 0x6E, 0x65, 0x20, 0x4F, 0x27, 0x42, 0x72, 0x69,
        0x65, 0x6E, 0x2D, 0x53, 0x6D, 0x69, 0x74, 0x68, 0x09, 0x50, 0x72, 0x69, 0x76,
        0x61, 0x74, 0x65, 0x20, 0x61, 0x6E, 0x64, 0x20, 0x43, 0x6F, 0x6E, 0x66, 0x69,
        0x64, 0x65, 0x6E, 0x74, 0x69, 0x61, 0x6C]"
    unfolding paragraphText_def ht by (simp add: nm janeName_def js_def)
  from h1 h2 ht f1 f2 show ?thesis
    unfolding two s by (simp add: nm ftext htext fields)
qed

end
